theory Spec2Isabelle
  imports Main
begin

section \<open>JSON values and the platform functions the code calls\<close>

text \<open>
  \<^verbatim>\<open>JsonValue\<close> of \<^verbatim>\<open>types/index.ts\<close>. JavaScript numbers are IEEE doubles; the
  properties below only ever read a number's type tag or compare small integers, so a
  number is an \<open>int\<close> here. A \<^verbatim>\<open>JsonObject\<close> is the list of its own enumerable entries
  in the order \<^verbatim>\<open>Object.entries\<close> reports them.
\<close>

datatype json =
    JNull
  | JBool bool
  | JNumber int
  | JString string
  | JArray "json list"
  | JObject "(string \<times> json) list"

text \<open>
  What a \<^verbatim>\<open>catch\<close> clause can receive: an \<^verbatim>\<open>Error\<close> instance with its message, or
  any other thrown value.
\<close>

datatype thrown = Error string | NonError

text \<open>
  \<^verbatim>\<open>JSON.parse\<close> belongs to the platform. It is a parameter of every function that
  calls it: a total function that either throws (\<open>Inl\<close>) or returns a value (\<open>Inr\<close>).
\<close>

type_synonym json_parse = "string \<Rightarrow> thrown + json"

section \<open>\<^verbatim>\<open>utils/jsonUtils.ts\<close>: parseJson\<close>

record ParseResult =
  success :: bool
  data :: "json option"
  error :: "string option"

definition parseJson :: "json_parse \<Rightarrow> string \<Rightarrow> ParseResult" where
  "parseJson JSON_parse jsonString =
     (case JSON_parse jsonString of
        Inr d \<Rightarrow> \<lparr>success = True, data = Some d, error = None\<rparr>
      | Inl e \<Rightarrow> \<lparr>success = False, data = None,
                  error = Some (case e of Error m \<Rightarrow> m | NonError \<Rightarrow> ''Invalid JSON'')\<rparr>)"

section \<open>\<^verbatim>\<open>App.tsx\<close>: the version history\<close>

record VersionHistoryItem =
  content :: string
  timestamp :: int
  label :: string

record DocumentState =
  raw :: string
  parsed :: "json option"
  isValid :: bool
  error :: "string option"

text \<open>The part of the component state of \<^verbatim>\<open>App\<close> that the history handlers read and write.\<close>

record App =
  document :: DocumentState
  versionHistory :: "VersionHistoryItem list"
  currentVersionIndex :: int

text \<open>The initial values given to \<^verbatim>\<open>React.useState\<close>.\<close>

definition App_initial :: App where
  "App_initial =
     \<lparr>document = \<lparr>raw = [], parsed = None, isValid = False, error = None\<rparr>,
      versionHistory = [],
      currentVersionIndex = - 1\<rparr>"

definition MAX_HISTORY_LENGTH :: nat where
  "MAX_HISTORY_LENGTH = 50"

text \<open>
  \<^verbatim>\<open>handleFileLoad\<close>, without the file name it also records: a file that parses
  becomes the document and the only entry of the history; one that does not parse is
  reported and leaves the history as it is. \<^verbatim>\<open>Date.now()\<close> is the parameter \<open>now\<close>.
\<close>

definition handleFileLoad :: "json_parse \<Rightarrow> int \<Rightarrow> string \<Rightarrow> App \<Rightarrow> App" where
  "handleFileLoad JSON_parse now fileContent st =
     (let result = parseJson JSON_parse fileContent in
      if success result \<and> data result \<noteq> None
      then st\<lparr>document := \<lparr>raw = fileContent, parsed = data result, isValid = True, error = None\<rparr>,
              versionHistory := [\<lparr>content = fileContent, timestamp = now, label = ''File loaded''\<rparr>],
              currentVersionIndex := 0\<rparr>
      else st\<lparr>document :=
                \<lparr>raw = fileContent, parsed = None, isValid = False,
                 error = Some (case ParseResult.error result of
                                 None \<Rightarrow> ''Failed to parse JSON''
                               | Some m \<Rightarrow> if m = [] then ''Failed to parse JSON'' else m)\<rparr>\<rparr>)"

text \<open>
  \<^verbatim>\<open>handleDocumentUpdate\<close>. \<^verbatim>\<open>JSON.stringify(_, null, 2)\<close> and \<^verbatim>\<open>Date.now()\<close> are
  the parameters \<open>stringify\<close> and \<open>now\<close>. \<^verbatim>\<open>slice(0, n)\<close> with \<open>n \<ge> 0\<close> is \<open>take\<close>,
  \<^verbatim>\<open>slice(k)\<close> with \<open>k \<ge> 0\<close> is \<open>drop\<close>.
\<close>

definition handleDocumentUpdate :: "(json \<Rightarrow> string) \<Rightarrow> int \<Rightarrow> json \<Rightarrow> App \<Rightarrow> App" where
  "handleDocumentUpdate stringify now newData st =
     (let newContent = stringify newData;
          newVersion = \<lparr>content = newContent, timestamp = now, label = ''Edit''\<rparr>;
          newHistory = (if currentVersionIndex st \<ge> 0
                        then take (nat (currentVersionIndex st + 1)) (versionHistory st)
                        else []);
          updatedHistory = newHistory @ [newVersion];
          trimmedHistory = (if length updatedHistory > MAX_HISTORY_LENGTH
                            then drop (length updatedHistory - MAX_HISTORY_LENGTH) updatedHistory
                            else updatedHistory)
      in st\<lparr>document := \<lparr>raw = newContent, parsed = Some newData, isValid = True, error = None\<rparr>,
            versionHistory := trimmedHistory,
            currentVersionIndex := int (length trimmedHistory) - 1\<rparr>)"

text \<open>
  A sequence of edits, each with the clock value read while it is handled, and each
  handled in the state the previous one has left.
\<close>

definition appendAll :: "(json \<Rightarrow> string) \<Rightarrow> (int \<times> json) list \<Rightarrow> App \<Rightarrow> App" where
  "appendAll stringify edits st =
     foldl (\<lambda>s (now, newData). handleDocumentUpdate stringify now newData s) st edits"

text \<open>
  Reading \<^verbatim>\<open>versionHistory[i]\<close> outside the array gives \<^verbatim>\<open>undefined\<close>, and the
  following \<^verbatim>\<open>version.content\<close> then throws a TypeError out of the handler.
\<close>

datatype js_error = TypeError

definition item_at :: "'a list \<Rightarrow> int \<Rightarrow> 'a option" where
  "item_at xs i = (if 0 \<le> i \<and> i < int (length xs) then Some (xs ! nat i) else None)"

text \<open>The common body of \<^verbatim>\<open>handleUndo\<close> and \<^verbatim>\<open>handleRedo\<close> once the new index is chosen.\<close>

definition showVersion :: "json_parse \<Rightarrow> int \<Rightarrow> App \<Rightarrow> js_error + App" where
  "showVersion JSON_parse newIndex st =
     (case item_at (versionHistory st) newIndex of
        None \<Rightarrow> Inl TypeError
      | Some version \<Rightarrow>
          (let result = parseJson JSON_parse (content version) in
           if success result \<and> data result \<noteq> None
           then Inr (st\<lparr>document := \<lparr>raw = content version, parsed = data result,
                                      isValid = True, error = None\<rparr>,
                       currentVersionIndex := newIndex\<rparr>)
           else Inr st))"

definition handleUndo :: "json_parse \<Rightarrow> App \<Rightarrow> js_error + App" where
  "handleUndo JSON_parse st =
     (if currentVersionIndex st > 0
      then showVersion JSON_parse (currentVersionIndex st - 1) st
      else Inr st)"

definition handleRedo :: "json_parse \<Rightarrow> App \<Rightarrow> js_error + App" where
  "handleRedo JSON_parse st =
     (if currentVersionIndex st < int (length (versionHistory st)) - 1
      then showVersion JSON_parse (currentVersionIndex st + 1) st
      else Inr st)"

section \<open>JavaScript string operations\<close>

text \<open>
  A JavaScript string is a sequence of UTF-16 code units; a \<open>char\<close> stands for a code
  unit below 256, which covers every character the code tests for. The white space of
  \<^verbatim>\<open>trim\<close> and of \<^verbatim>\<open>Number\<close> is TAB, LF, VT, FF, CR, SP and NBSP in that range.
\<close>

definition isWhiteSpace :: "char \<Rightarrow> bool" where
  "isWhiteSpace c =
     (c = CHR 0x09 \<or> c = CHR 0x0A \<or> c = CHR 0x0B \<or> c = CHR 0x0C \<or> c = CHR 0x0D \<or>
      c = CHR 0x20 \<or> c = CHR 0xA0)"

definition trim :: "string \<Rightarrow> string" where
  "trim s = rev (dropWhile isWhiteSpace (rev (dropWhile isWhiteSpace s)))"

definition startsWith :: "string \<Rightarrow> string \<Rightarrow> bool" where
  "startsWith s t = (take (length t) s = t)"

definition endsWith :: "string \<Rightarrow> string \<Rightarrow> bool" where
  "endsWith s t = (length t \<le> length s \<and> drop (length s - length t) s = t)"

fun includesStr :: "string \<Rightarrow> string \<Rightarrow> bool" where
  "includesStr [] t = (t = [])"
| "includesStr (c # cs) t = (startsWith (c # cs) t \<or> includesStr cs t)"

text \<open>\<^verbatim>\<open>s.split(c)\<close> for a one-character separator: never empty, \<^verbatim>\<open>"".split(c)\<close> is \<^verbatim>\<open>[""]\<close>.\<close>

definition splitStr :: "char \<Rightarrow> string \<Rightarrow> string list" where
  "splitStr sep s =
     foldr (\<lambda>c acc. if c = sep then [] # acc else (c # hd acc) # tl acc) s [[]]"

text \<open>\<^verbatim>\<open>xs.join(sep)\<close>.\<close>

fun join :: "string \<Rightarrow> string list \<Rightarrow> string" where
  "join sep [] = []"
| "join sep [x] = x"
| "join sep (x # y # ys) = x @ sep @ join sep (y # ys)"

text \<open>The regular-expression class \<^verbatim>\<open>\d\<close>: the ten ASCII digits.\<close>

definition isDigit :: "char \<Rightarrow> bool" where
  "isDigit c = (c \<in> set ''0123456789'')"

text \<open>A non-empty string of digits: \<^verbatim>\<open>/^\d+$/\<close>.\<close>

definition isDecimalDigits :: "string \<Rightarrow> bool" where
  "isDecimalDigits s = (s \<noteq> [] \<and> list_all isDigit s)"

text \<open>
  \<^verbatim>\<open>parseInt\<close> on a string of decimal digits. (Beyond \<open>2^53\<close> JavaScript rounds to a
  double; the model keeps the exact value.)
\<close>

definition parseInt :: "string \<Rightarrow> nat" where
  "parseInt s = foldl (\<lambda>a c. 10 * a + (of_char c - 48)) 0 s"

section \<open>\<^verbatim>\<open>DocumentViewer\<close>: from a highlight path to a line range\<close>

text \<open>
  A path segment \<^verbatim>\<open>{type: 'index' | 'property', value: string}\<close>: the constructor is
  the type tag, its argument the value.
\<close>

datatype PathSegment = IndexSegment string | PropertySegment string

text \<open>
  \<^verbatim>\<open>highlightPath.match(/\[(\d+)\]|([^.\[\]]+)/g)\<close>: all matches, left to right. At each
  position the first alternative is tried, then the second; where neither matches the
  scan moves one character on. Both repetitions are greedy, and what follows them must
  differ from what they repeat, so only the longest run can match.
\<close>

definition isPlain :: "char \<Rightarrow> bool" where
  "isPlain c = (c \<noteq> CHR ''.'' \<and> c \<noteq> CHR ''['' \<and> c \<noteq> CHR '']'')"

function matchSegments :: "string \<Rightarrow> string list" where
  "matchSegments [] = []"
| "matchSegments (c # cs) =
     (if c = CHR ''['' \<and> takeWhile isDigit cs \<noteq> [] \<and>
         startsWith (dropWhile isDigit cs) '']''
      then (c # takeWhile isDigit cs @ '']'') # matchSegments (drop 1 (dropWhile isDigit cs))
      else if isPlain c
      then (c # takeWhile isPlain cs) # matchSegments (dropWhile isPlain cs)
      else matchSegments cs)"
  by pat_completeness auto
termination
proof (relation "measure length")
  fix c :: char and cs :: string
  have "length (drop 1 (dropWhile isDigit cs)) \<le> length cs"
    using length_dropWhile_le[of isDigit cs] by simp
  then show "(drop 1 (dropWhile isDigit cs), c # cs) \<in> measure length" by simp
  have "length (dropWhile isPlain cs) \<le> length cs"
    by (rule length_dropWhile_le)
  then show "(dropWhile isPlain cs, c # cs) \<in> measure length" by simp
qed simp_all

text \<open>
  The \<^verbatim>\<open>forEach\<close> over the matches: one starting with \<^verbatim>\<open>[\<close> becomes an index segment
  whose value is the match without its brackets, any other a property segment.
\<close>

definition toSegment :: "string \<Rightarrow> PathSegment" where
  "toSegment m =
     (if startsWith m ''[''
      then IndexSegment (filter (\<lambda>c. c \<noteq> CHR ''['' \<and> c \<noteq> CHR '']'') m)
      else PropertySegment m)"

definition pathSegments :: "string \<Rightarrow> PathSegment list" where
  "pathSegments highlightPath = map toSegment (matchSegments highlightPath)"

text \<open>The local variables of the line scan.\<close>

record Scan =
  startLine :: int
  endLine :: int
  currentSegmentIndex :: nat
  arrayIndexCounter :: nat
  objectDepth :: int
  targetDepth :: int
  trackingArrayDepth :: int
  inTargetStructure :: bool

definition Scan_initial :: Scan where
  "Scan_initial =
     \<lparr>startLine = - 1, endLine = - 1, currentSegmentIndex = 0, arrayIndexCounter = 0,
      objectDepth = 0, targetDepth = 0, trackingArrayDepth = - 1, inTargetStructure = False\<rparr>"

definition opensBlock :: "string \<Rightarrow> bool" where
  "opensBlock trimmed = (endsWith trimmed ''{'' \<or> endsWith trimmed ''['')"

definition atIndexSegment :: "PathSegment list \<Rightarrow> Scan \<Rightarrow> bool" where
  "atIndexSegment segs st =
     (currentSegmentIndex st < length segs \<and>
      (case segs ! currentSegmentIndex st of IndexSegment v \<Rightarrow> True | PropertySegment v \<Rightarrow> False))"

definition atPropertySegment :: "PathSegment list \<Rightarrow> Scan \<Rightarrow> bool" where
  "atPropertySegment segs st =
     (currentSegmentIndex st < length segs \<and>
      (case segs ! currentSegmentIndex st of IndexSegment v \<Rightarrow> False | PropertySegment v \<Rightarrow> True))"

definition segmentValue :: "PathSegment \<Rightarrow> string" where
  "segmentValue seg = (case seg of IndexSegment v \<Rightarrow> v | PropertySegment v \<Rightarrow> v)"

text \<open>First block of the loop body: a line ending in an opening brace or bracket.\<close>

definition onOpening :: "PathSegment list \<Rightarrow> nat \<Rightarrow> string \<Rightarrow> Scan \<Rightarrow> Scan" where
  "onOpening segs i trimmed st =
     (if \<not> opensBlock trimmed then st
      else if atIndexSegment segs st \<and> endsWith trimmed ''['' \<and> trackingArrayDepth st = - 1
      then st\<lparr>arrayIndexCounter := 0,
              trackingArrayDepth := objectDepth st,
              objectDepth := objectDepth st + 1\<rparr>
      else if atIndexSegment segs st \<and> trackingArrayDepth st \<noteq> - 1 \<and>
              objectDepth st = trackingArrayDepth st + 1 \<and> trimmed = ''{''
      then (let st1 =
                 (if arrayIndexCounter st = parseInt (segmentValue (segs ! currentSegmentIndex st))
                  then (let st2 = st\<lparr>currentSegmentIndex := currentSegmentIndex st + 1,
                                      trackingArrayDepth := - 1\<rparr>
                        in if currentSegmentIndex st2 = length segs
                           then st2\<lparr>startLine := int i + 1,
                                    targetDepth := objectDepth st2 + 1,
                                    inTargetStructure := True\<rparr>
                           else st2)
                  else st\<lparr>arrayIndexCounter := arrayIndexCounter st + 1\<rparr>)
            in st1\<lparr>objectDepth := objectDepth st1 + 1\<rparr>)
      else st\<lparr>objectDepth := objectDepth st + 1\<rparr>)"

text \<open>
  Second block: the property match. The flag in the result is the \<^verbatim>\<open>break\<close> out of
  the loop.
\<close>

definition onProperty :: "PathSegment list \<Rightarrow> nat \<Rightarrow> string \<Rightarrow> string \<Rightarrow> Scan \<Rightarrow> Scan \<times> bool" where
  "onProperty segs i line trimmed st =
     (if atPropertySegment segs st \<and>
         includesStr line ([CHR 0x22] @ segmentValue (segs ! currentSegmentIndex st) @ [CHR 0x22]) \<and>
         includesStr trimmed '':''
      then (if opensBlock trimmed
            then (st\<lparr>startLine := int i + 1,
                     targetDepth := objectDepth st + 1,
                     inTargetStructure := True,
                     currentSegmentIndex := currentSegmentIndex st + 1,
                     objectDepth := objectDepth st + 1\<rparr>, False)
            else (let st1 = st\<lparr>currentSegmentIndex := currentSegmentIndex st + 1\<rparr>
                  in if currentSegmentIndex st1 = length segs
                     then (st1\<lparr>startLine := int i + 1, endLine := int i + 1\<rparr>, True)
                     else (st1, False)))
      else (st, False))"

text \<open>Third block: a line starting with a closing brace or bracket.\<close>

definition onClosing :: "nat \<Rightarrow> string \<Rightarrow> Scan \<Rightarrow> Scan \<times> bool" where
  "onClosing i trimmed st =
     (if startsWith trimmed ''}'' \<or> startsWith trimmed '']''
      then (if inTargetStructure st \<and> objectDepth st = targetDepth st
            then (st\<lparr>endLine := int i + 1\<rparr>, True)
            else (let st1 = st\<lparr>objectDepth := objectDepth st - 1\<rparr>
                  in if trackingArrayDepth st1 \<noteq> - 1 \<and> objectDepth st1 \<le> trackingArrayDepth st1
                     then (st1\<lparr>trackingArrayDepth := - 1\<rparr>, False)
                     else (st1, False)))
      else (st, False))"

definition scanLine :: "PathSegment list \<Rightarrow> nat \<Rightarrow> string \<Rightarrow> Scan \<Rightarrow> Scan \<times> bool" where
  "scanLine segs i line st =
     (let trimmed = trim line;
          (st1, stop) = onProperty segs i line trimmed (onOpening segs i trimmed st)
      in if stop then (st1, True) else onClosing i trimmed st1)"

text \<open>The \<^verbatim>\<open>for\<close> loop over the lines from index \<open>i\<close> on.\<close>

fun scanLines :: "PathSegment list \<Rightarrow> nat \<Rightarrow> string list \<Rightarrow> Scan \<Rightarrow> Scan" where
  "scanLines segs i [] st = st"
| "scanLines segs i (line # rest) st =
     (case scanLine segs i line st of
        (st1, True) \<Rightarrow> st1
      | (st1, False) \<Rightarrow> scanLines segs (i + 1) rest st1)"

text \<open>
  The highlight effect of \<^verbatim>\<open>DocumentViewer\<close>, for a mounted editor: the inclusive range
  of 1-based lines that receive the decoration, or \<open>None\<close> when no decoration is set.
  A \<^verbatim>\<open>null\<close> or empty \<^verbatim>\<open>highlightPath\<close> is falsy and leaves the effect at once.
\<close>

definition highlightRange :: "string \<Rightarrow> string option \<Rightarrow> (int \<times> int) option" where
  "highlightRange rawJson highlightPath =
     (case highlightPath of
        None \<Rightarrow> None
      | Some path \<Rightarrow>
          if path = [] then None
          else (let lines = splitStr (CHR 0x0A) rawJson;
                    st = scanLines (pathSegments path) 0 lines Scan_initial;
                    st1 = (if startLine st \<noteq> - 1 \<and> endLine st = - 1
                           then st\<lparr>endLine := startLine st\<rparr> else st)
                in if startLine st1 \<noteq> - 1 \<and> endLine st1 \<noteq> - 1
                   then Some (startLine st1, endLine st1)
                   else None))"

section \<open>\<^verbatim>\<open>QueryTool\<close>: the visual query builder\<close>

text \<open>
  \<^verbatim>\<open>interface Condition {id, property, operator, value}\<close>, all strings. The fields
  \<^verbatim>\<open>id\<close> and \<^verbatim>\<open>value\<close> are written \<open>cid\<close> and \<open>cvalue\<close>. The operator is whatever
  string the \<^verbatim>\<open>select\<close> element holds: \<^verbatim>\<open>==\<close>, \<^verbatim>\<open>!=\<close>, \<^verbatim>\<open>>\<close>, \<^verbatim>\<open>>=\<close>, \<^verbatim>\<open><\<close>,
  \<^verbatim>\<open><=\<close>, \<^verbatim>\<open>contains\<close> or \<^verbatim>\<open>=~\<close>.
\<close>

record Condition =
  cid :: string
  property :: string
  operator :: string
  cvalue :: string

datatype LogicOperator = AND | OR

subsection \<open>\<^verbatim>\<open>isNaN(Number(value))\<close>\<close>

text \<open>
  \<^verbatim>\<open>Number\<close> applied to a string follows the grammar \<^verbatim>\<open>StringNumericLiteral\<close> of
  ECMAScript: the string is trimmed; the empty string is 0; otherwise it must be an
  optionally signed decimal literal (\<^verbatim>\<open>Infinity\<close>, digits with an optional fraction and
  exponent) or an unsigned binary, octal or hexadecimal integer literal. Anything else
  is \<^verbatim>\<open>NaN\<close>.
\<close>

definition isSign :: "char \<Rightarrow> bool" where
  "isSign c = (c = CHR ''+'' \<or> c = CHR ''-'')"

definition isSignedInteger :: "string \<Rightarrow> bool" where
  "isSignedInteger s =
     (case s of [] \<Rightarrow> False
      | c # r \<Rightarrow> if isSign c then isDecimalDigits r else isDecimalDigits s)"

definition isExponentPart :: "string \<Rightarrow> bool" where
  "isExponentPart s =
     (case s of [] \<Rightarrow> False
      | e # r \<Rightarrow> (e = CHR ''e'' \<or> e = CHR ''E'') \<and> isSignedInteger r)"

definition isOptExponentPart :: "string \<Rightarrow> bool" where
  "isOptExponentPart s = (if s = [] then True else isExponentPart s)"

definition isStrUnsignedDecimalLiteral :: "string \<Rightarrow> bool" where
  "isStrUnsignedDecimalLiteral s =
     (if s = ''Infinity'' then True
      else (let intPart = takeWhile isDigit s; r = dropWhile isDigit s in
            case r of
              [] \<Rightarrow> intPart \<noteq> []
            | c # t \<Rightarrow>
                if c = CHR ''.''
                then (if intPart = [] then takeWhile isDigit t \<noteq> [] else True) \<and>
                     isOptExponentPart (dropWhile isDigit t)
                else intPart \<noteq> [] \<and> isExponentPart r))"

definition isStrDecimalLiteral :: "string \<Rightarrow> bool" where
  "isStrDecimalLiteral s =
     (case s of [] \<Rightarrow> False
      | c # r \<Rightarrow> if isSign c then isStrUnsignedDecimalLiteral r
                 else isStrUnsignedDecimalLiteral s)"

definition isNonDecimalIntegerLiteral :: "string \<Rightarrow> bool" where
  "isNonDecimalIntegerLiteral s =
     (case s of
        z # x # r \<Rightarrow>
          z = CHR ''0'' \<and> r \<noteq> [] \<and>
          (if x = CHR ''x'' \<or> x = CHR ''X'' then list_all (\<lambda>c. c \<in> set ''0123456789abcdefABCDEF'') r
           else if x = CHR ''o'' \<or> x = CHR ''O'' then list_all (\<lambda>c. c \<in> set ''01234567'') r
           else if x = CHR ''b'' \<or> x = CHR ''B'' then list_all (\<lambda>c. c \<in> set ''01'') r
           else False)
      | _ \<Rightarrow> False)"

definition Number_isNaN :: "string \<Rightarrow> bool" where
  "Number_isNaN s =
     (let t = trim s in
      if t = [] then False
      else if isStrDecimalLiteral t then False
      else if isNonDecimalIntegerLiteral t then False
      else True)"

subsection \<open>generateJSONPathFromConditions\<close>

definition quoted :: "string \<Rightarrow> string" where
  "quoted s = [CHR 0x22] @ s @ [CHR 0x22]"

text \<open>The callback of \<^verbatim>\<open>conditions.map\<close>.\<close>

definition filterExpression :: "Condition \<Rightarrow> string" where
  "filterExpression c =
     (let formattedValue =
            (if operator c = ''=~'' \<or> operator c = ''contains'' then quoted (cvalue c)
             else if \<not> Number_isNaN (cvalue c) then cvalue c
             else if cvalue c = ''true'' \<or> cvalue c = ''false'' \<or> cvalue c = ''null''
             then cvalue c
             else quoted (cvalue c))
      in if operator c = ''contains''
         then ''@.'' @ property c @ '' =~ /'' @ cvalue c @ ''/i''
         else ''@.'' @ property c @ '' '' @ operator c @ '' '' @ formattedValue)"

definition generateJSONPathFromConditions :: "Condition list \<Rightarrow> LogicOperator \<Rightarrow> string" where
  "generateJSONPathFromConditions conditions logicOperator =
     (if conditions = [] then ''$[*]''
      else (let filterExpressions = map filterExpression conditions;
                joinOperator = (if logicOperator = AND then '' && '' else '' || '')
            in ''$[?('' @ join joinOperator filterExpressions @ '')]''))"

subsection \<open>convertJsonPathToAppPath\<close>

text \<open>
  \<^verbatim>\<open>path.replace(/\['([^']+)'\]/g, ...)\<close>: every match, left to right, is replaced by
  what the callback returns; the text between matches is kept. A match is \<^verbatim>\<open>['\<close>, the
  longest non-empty run of characters other than \<^verbatim>\<open>'\<close>, and \<^verbatim>\<open>']\<close>. The callback
  keeps a body of digits in brackets and turns any other body into dot notation.
\<close>

definition notQuote :: "char \<Rightarrow> bool" where
  "notQuote c = (c \<noteq> CHR 0x27)"

definition matchesQuotedBracket :: "string \<Rightarrow> bool" where
  "matchesQuotedBracket s =
     (startsWith s [CHR ''['', CHR 0x27] \<and>
      takeWhile notQuote (drop 2 s) \<noteq> [] \<and>
      startsWith (dropWhile notQuote (drop 2 s)) [CHR 0x27, CHR '']''])"

definition replacement :: "string \<Rightarrow> string" where
  "replacement prop =
     (if isDecimalDigits prop then ''['' @ prop @ '']'' else ''.'' @ prop)"

function replaceQuotedBrackets :: "string \<Rightarrow> string" where
  "replaceQuotedBrackets [] = []"
| "replaceQuotedBrackets (c # cs) =
     (if matchesQuotedBracket (c # cs)
      then replacement (takeWhile notQuote (drop 1 cs)) @
           replaceQuotedBrackets (drop 2 (dropWhile notQuote (drop 1 cs)))
      else c # replaceQuotedBrackets cs)"
  by pat_completeness auto
termination
proof (relation "measure length")
  fix c :: char and cs :: string
  have "length (dropWhile notQuote (drop 1 cs)) \<le> length (drop 1 cs)"
    by (rule length_dropWhile_le)
  then have "length (drop 2 (dropWhile notQuote (drop 1 cs))) \<le> length cs" by simp
  then show "(drop 2 (dropWhile notQuote (drop 1 cs)), c # cs) \<in> measure length" by simp
qed simp_all

definition convertJsonPathToAppPath :: "string \<Rightarrow> string" where
  "convertJsonPathToAppPath jsonPath =
     (let path = (if startsWith jsonPath ''$'' then drop 1 jsonPath else jsonPath);
          path = replaceQuotedBrackets path
      in if startsWith path ''.['' then drop 1 path else path)"

subsection \<open>executeQueryWithPath\<close>

text \<open>
  \<^verbatim>\<open>JSONPath({path, json, resultType: 'all'})\<close> of the library jsonpath-plus is a
  parameter: it throws, or returns the matches, each with its value and its path in the
  library's bracket notation (a missing result counts as no match).
\<close>

type_synonym evaluator = "string \<Rightarrow> json \<Rightarrow> thrown + (json \<times> string) list"

text \<open>
  \<^verbatim>\<open>interface QueryResult\<close>; an absent optional field is \<open>None\<close>. An element of
  \<^verbatim>\<open>items\<close> is the pair of its \<^verbatim>\<open>value\<close> and its \<^verbatim>\<open>path\<close>.
\<close>

record QueryResult =
  success :: bool
  data :: "json list option"
  error :: "string option"
  count :: "nat option"
  paths :: "string list option"
  items :: "(json \<times> string) list option"

definition executeQueryWithPath ::
    "evaluator \<Rightarrow> json \<Rightarrow> string \<Rightarrow> string option \<Rightarrow> QueryResult" where
  "executeQueryWithPath JSONPath json query queryPath =
     (let queryToExecute = (case queryPath of None \<Rightarrow> query
                            | Some p \<Rightarrow> if p = [] then query else p)
      in if trim queryToExecute = []
         then \<lparr>success = False, data = None, error = Some ''Please enter a JSONPath query'',
               count = None, paths = None, items = None\<rparr>
         else (case JSONPath queryToExecute json of
                 Inl e \<Rightarrow>
                   \<lparr>success = False, data = None,
                    error = Some (case e of
                                    Error m \<Rightarrow> if m = [] then ''Invalid query syntax'' else m
                                  | NonError \<Rightarrow> ''Invalid query syntax''),
                    count = None, paths = None, items = None\<rparr>
               | Inr queryResult \<Rightarrow>
                   if length queryResult > 0
                   then (let its = map (\<lambda>(v, p). (v, convertJsonPathToAppPath p)) queryResult
                         in \<lparr>success = True, data = Some (map fst its), error = None,
                             count = Some (length its), paths = None, items = Some its\<rparr>)
                   else \<lparr>success = True, data = Some [], error = None,
                         count = Some 0, paths = None, items = Some []\<rparr>))"

text \<open>
  \<^verbatim>\<open>executeVisualQuery\<close>: the generated expression is never empty, so it is the one
  executed, whatever the text field \<open>query\<close> holds.
\<close>

definition executeVisualQuery ::
    "evaluator \<Rightarrow> json \<Rightarrow> string \<Rightarrow> Condition list \<Rightarrow> LogicOperator \<Rightarrow> QueryResult" where
  "executeVisualQuery JSONPath json query conditions logicOperator =
     (let generatedQuery = generateJSONPathFromConditions conditions logicOperator
      in executeQueryWithPath JSONPath json query (Some generatedQuery))"

subsection \<open>The filter evaluator\<close>

text \<open>
  Modelled from the spec: the evaluator of filter expressions. The code delegates it to
  the function \<^verbatim>\<open>JSONPath\<close> of the library jsonpath-plus, which is not part of the
  sources. The model covers the expressions the visual builder compiles with the six
  comparison operators, as section 4.4 of the spec describes them: \<^verbatim>\<open>$\<close> is the document
  root, \<^verbatim>\<open>[?(predicate)]\<close> selects the children of the root for which the predicate holds,
  \<^verbatim>\<open>@\<close> is the child under test, a predicate is a comparison \<^verbatim>\<open>@.path op literal\<close> or
  several of them combined with \<^verbatim>\<open>&&\<close> and \<^verbatim>\<open>||\<close>. Matches come in document order, each
  with its value and its address in bracket notation (\<^verbatim>\<open>$[3]\<close>, \<^verbatim>\<open>$['prop']\<close>). Any
  other expression is reported as a syntax error.
\<close>

datatype Comparison = Eq | Ne | Gt | Ge | Lt | Le

text \<open>Splitting at every occurrence of a separator of one or more characters.\<close>

fun splitAt :: "string \<Rightarrow> nat \<Rightarrow> string \<Rightarrow> string \<Rightarrow> string list" where
  "splitAt sep skip acc [] = [rev acc]"
| "splitAt sep skip acc (c # cs) =
     (if skip > 0 then splitAt sep (skip - 1) acc cs
      else if startsWith (c # cs) sep then rev acc # splitAt sep (length sep - 1) [] cs
      else splitAt sep 0 (c # acc) cs)"

definition splitOn :: "string \<Rightarrow> string \<Rightarrow> string list" where
  "splitOn sep s = splitAt sep 0 [] s"

definition parseComparison :: "string \<Rightarrow> Comparison option" where
  "parseComparison s =
     (if s = ''=='' then Some Eq else if s = ''!='' then Some Ne
      else if s = ''>'' then Some Gt else if s = ''>='' then Some Ge
      else if s = ''<'' then Some Lt else if s = ''<='' then Some Le
      else None)"

definition parseLiteral :: "string \<Rightarrow> json option" where
  "parseLiteral s =
     (if s = ''true'' then Some (JBool True)
      else if s = ''false'' then Some (JBool False)
      else if s = ''null'' then Some JNull
      else if isDecimalDigits s then Some (JNumber (int (parseInt s)))
      else if startsWith s ''-'' \<and> isDecimalDigits (drop 1 s)
      then Some (JNumber (- int (parseInt (drop 1 s))))
      else if 2 \<le> length s \<and> startsWith s [CHR 0x22] \<and> endsWith s [CHR 0x22]
      then Some (JString (take (length s - 2) (drop 1 s)))
      else None)"

text \<open>One comparison \<^verbatim>\<open>@.path op literal\<close>: the property path, the operator, the literal.\<close>

definition parseAtom :: "string \<Rightarrow> (string list \<times> Comparison \<times> json) option" where
  "parseAtom s =
     (case splitStr (CHR '' '') s of
        lhs # opTok # w # ws \<Rightarrow>
          (case (parseComparison opTok, parseLiteral (join '' '' (w # ws))) of
             (Some cmp, Some lit) \<Rightarrow>
               if startsWith lhs ''@.'' \<and> length lhs > 2
               then Some (splitStr (CHR ''.'') (drop 2 lhs), cmp, lit)
               else None
           | _ \<Rightarrow> None)
      | _ \<Rightarrow> None)"

fun allSome :: "'a option list \<Rightarrow> 'a list option" where
  "allSome [] = Some []"
| "allSome (x # xs) =
     (case (x, allSome xs) of (Some y, Some ys) \<Rightarrow> Some (y # ys) | _ \<Rightarrow> None)"

text \<open>A predicate in disjunctive form: \<^verbatim>\<open>&&\<close> binds tighter than \<^verbatim>\<open>||\<close>.\<close>

definition parseFilter :: "string \<Rightarrow> (string list \<times> Comparison \<times> json) list list option" where
  "parseFilter q =
     (if startsWith q ''$[?('' \<and> endsWith q '')]'' \<and> 6 \<le> length q
      then allSome (map (\<lambda>conj. allSome (map parseAtom (splitOn '' && '' conj)))
                        (splitOn '' || '' (take (length q - 6) (drop 4 q))))
      else None)"

fun resolve :: "json \<Rightarrow> string list \<Rightarrow> json option" where
  "resolve v [] = Some v"
| "resolve (JObject kvs) (k # ks) =
     (case map_of kvs k of None \<Rightarrow> None | Some v \<Rightarrow> resolve v ks)"
| "resolve v (k # ks) = None"

text \<open>
  Numbers compare by value; equality holds between equal scalars; a missing property
  satisfies no comparison but \<^verbatim>\<open>!=\<close>.
\<close>

definition compareValues :: "Comparison \<Rightarrow> json option \<Rightarrow> json \<Rightarrow> bool" where
  "compareValues cmp lhs lit =
     (case cmp of
        Eq \<Rightarrow> lhs = Some lit
      | Ne \<Rightarrow> lhs \<noteq> Some lit
      | Gt \<Rightarrow> (case (lhs, lit) of (Some (JNumber a), JNumber b) \<Rightarrow> a > b | _ \<Rightarrow> False)
      | Ge \<Rightarrow> (case (lhs, lit) of (Some (JNumber a), JNumber b) \<Rightarrow> a \<ge> b | _ \<Rightarrow> False)
      | Lt \<Rightarrow> (case (lhs, lit) of (Some (JNumber a), JNumber b) \<Rightarrow> a < b | _ \<Rightarrow> False)
      | Le \<Rightarrow> (case (lhs, lit) of (Some (JNumber a), JNumber b) \<Rightarrow> a \<le> b | _ \<Rightarrow> False))"

definition holds :: "(string list \<times> Comparison \<times> json) list list \<Rightarrow> json \<Rightarrow> bool" where
  "holds pred v =
     list_ex (list_all (\<lambda>(path, cmp, lit). compareValues cmp (resolve v path) lit)) pred"

text \<open>Decimal notation of an array index.\<close>

fun showNat :: "nat \<Rightarrow> string" where
  "showNat n =
     (if n < 10 then [''0123456789'' ! n]
      else showNat (n div 10) @ [''0123456789'' ! (n mod 10)])"

text \<open>The children of the root in document order, each with its bracket-notation path.\<close>

definition children :: "json \<Rightarrow> (json \<times> string) list" where
  "children root =
     (case root of
        JArray xs \<Rightarrow> map (\<lambda>(i, v). (v, ''$['' @ showNat i @ '']'')) (zip [0..<length xs] xs)
      | JObject kvs \<Rightarrow> map (\<lambda>(k, v). (v, ''$['' @ [CHR 0x27] @ k @ [CHR 0x27] @ '']'')) kvs
      | _ \<Rightarrow> [])"

definition filterEvaluator :: evaluator where
  "filterEvaluator path root =
     (case parseFilter path of
        None \<Rightarrow> Inl (Error ''Unsupported filter expression'')
      | Some pred \<Rightarrow> Inr (filter (\<lambda>(v, p). holds pred v) (children root)))"

section \<open>\<^verbatim>\<open>utils/jsonUtils.ts\<close>: schema inference and default values\<close>

text \<open>\<^verbatim>\<open>PropertyType\<close>, \<^verbatim>\<open>PropertySchema\<close> and \<^verbatim>\<open>ObjectSchema\<close> of \<^verbatim>\<open>types/index.ts\<close>.\<close>

datatype PropertyType = TString | TNumber | TBoolean | TNull | TArray | TObject

datatype PropertySchema =
  PropertySchema
    (name: string)
    (type: PropertyType)
    (required: bool)
    (arrayItemType: "PropertyType option")
    (objectSchema: "PropertySchema list option")

record ObjectSchema =
  properties :: "PropertySchema list"

fun inferType :: "json \<Rightarrow> PropertyType" where
  "inferType JNull = TNull"
| "inferType (JArray xs) = TArray"
| "inferType (JObject kvs) = TObject"
| "inferType (JString s) = TString"
| "inferType (JNumber n) = TNumber"
| "inferType (JBool b) = TBoolean"

text \<open>
  \<^verbatim>\<open>inferObjectSchema\<close>: the loop over \<^verbatim>\<open>Object.entries(obj)\<close> is the recursion over the
  entries, \<open>inferProperty\<close> is its body for one entry.
\<close>

fun inferProperty :: "string \<Rightarrow> json \<Rightarrow> PropertySchema"
  and inferProperties :: "(string \<times> json) list \<Rightarrow> PropertySchema list" where
  "inferProperty key (JArray (x # xs)) =
     PropertySchema key TArray True (Some (inferType x))
       (case x of JObject kvs \<Rightarrow> Some (inferProperties kvs) | _ \<Rightarrow> None)"
| "inferProperty key (JObject kvs) =
     PropertySchema key TObject True None (Some (inferProperties kvs))"
| "inferProperty key v = PropertySchema key (inferType v) True None None"
| "inferProperties [] = []"
| "inferProperties ((key, v) # rest) = inferProperty key v # inferProperties rest"

definition inferObjectSchema :: "(string \<times> json) list \<Rightarrow> ObjectSchema" where
  "inferObjectSchema obj = \<lparr>properties = inferProperties obj\<rparr>"

fun getDefaultValue :: "PropertyType \<Rightarrow> json" where
  "getDefaultValue TString = JString []"
| "getDefaultValue TNumber = JNumber 0"
| "getDefaultValue TBoolean = JBool False"
| "getDefaultValue TNull = JNull"
| "getDefaultValue TArray = JArray []"
| "getDefaultValue TObject = JObject []"

text \<open>
  The assignment \<^verbatim>\<open>obj[key] = value\<close> on an object built from \<^verbatim>\<open>{}\<close>. An object is
  the list of its own entries in the order \<^verbatim>\<open>Object.entries\<close> reports them: array-index
  keys first, by ascending value, then the other keys in the order they were created.
  An existing key keeps its place. The key \<^verbatim>\<open>__proto__\<close> is special: as long as the
  object inherits from \<^verbatim>\<open>Object.prototype\<close> (the flag beside the entries) the assignment
  runs the inherited setter and creates no entry; the setter replaces the prototype when
  the value is an object or \<^verbatim>\<open>null\<close>, and only \<^verbatim>\<open>null\<close> cuts the object off from
  \<^verbatim>\<open>Object.prototype\<close>.
\<close>

definition isArrayIndex :: "string \<Rightarrow> bool" where
  "isArrayIndex k =
     (isDecimalDigits k \<and> (if k = ''0'' then True else hd k \<noteq> CHR ''0'') \<and>
      parseInt k < 4294967295)"

definition precedes :: "string \<Rightarrow> string \<times> json \<Rightarrow> bool" where
  "precedes k e = (isArrayIndex (fst e) \<and> parseInt (fst e) < parseInt k)"

definition assign :: "string \<Rightarrow> json \<Rightarrow> bool \<times> (string \<times> json) list \<Rightarrow> bool \<times> (string \<times> json) list" where
  "assign k v obj =
     (let inherits = fst obj; entries = snd obj in
      if k \<in> set (map fst entries)
      then (inherits, map (\<lambda>e. if fst e = k then (k, v) else e) entries)
      else if k = ''__proto__'' \<and> inherits
      then ((case v of JNull \<Rightarrow> False | _ \<Rightarrow> True), entries)
      else if isArrayIndex k
      then (inherits, takeWhile (precedes k) entries @ [(k, v)] @ dropWhile (precedes k) entries)
      else (inherits, entries @ [(k, v)]))"

definition createDefaultObject :: "ObjectSchema \<Rightarrow> (string \<times> json) list" where
  "createDefaultObject schema =
     snd (foldl (\<lambda>obj prop. assign (name prop) (getDefaultValue (type prop)) obj)
                (True, []) (properties schema))"

text \<open>The name and the type tag of every property of a schema, in order.\<close>

definition typeTags :: "ObjectSchema \<Rightarrow> (string \<times> PropertyType) list" where
  "typeTags schema = map (\<lambda>p. (name p, type p)) (properties schema)"

section \<open>Notions used to state the properties\<close>

text \<open>The last \<open>n\<close> elements of a list.\<close>

definition lastn :: "nat \<Rightarrow> 'a list \<Rightarrow> 'a list" where
  "lastn n xs = drop (length xs - n) xs"

text \<open>The history entry that \<^verbatim>\<open>handleDocumentUpdate\<close> appends for an edit.\<close>

definition snapshot :: "(json \<Rightarrow> string) \<Rightarrow> int \<times> json \<Rightarrow> VersionHistoryItem" where
  "snapshot stringify e = \<lparr>content = stringify (snd e), timestamp = fst e, label = ''Edit''\<rparr>"

text \<open>
  The states in which the history handlers run: the viewer that offers undo and redo is
  mounted only for a loaded document, so the cursor points at an entry of the history,
  and every entry holds a text that parses, being a loaded file or the serialization of
  an edit.
\<close>

definition parses :: "json_parse \<Rightarrow> VersionHistoryItem \<Rightarrow> bool" where
  "parses JSON_parse v = (case JSON_parse (content v) of Inr d \<Rightarrow> True | Inl e \<Rightarrow> False)"

definition wellFormedHistory :: "json_parse \<Rightarrow> App \<Rightarrow> bool" where
  "wellFormedHistory JSON_parse st =
     (0 \<le> currentVersionIndex st \<and>
      currentVersionIndex st < int (length (versionHistory st)) \<and>
      list_all (parses JSON_parse) (versionHistory st))"

text \<open>Sixty edits, and a two-entry history positioned at a given index.\<close>

definition sixty_edits :: "(int \<times> json) list" where
  "sixty_edits = map (\<lambda>i. (int i, JNumber (int i))) [0..<60]"

definition two_versions :: "int \<Rightarrow> App" where
  "two_versions i =
     \<lparr>document = \<lparr>raw = ''1'', parsed = Some (JNumber 1), isValid = True, error = None\<rparr>,
      versionHistory = [\<lparr>content = ''0'', timestamp = 10, label = ''File loaded''\<rparr>,
                        \<lparr>content = ''1'', timestamp = 20, label = ''Edit''\<rparr>],
      currentVersionIndex = i\<rparr>"

text \<open>
  The pretty-printed document \<^verbatim>\<open>{"a": {"b": 1}}\<close>, five lines joined by line feeds, and
  the sample array of the price query.
\<close>

definition nested_sample :: string where
  \<open>nested_sample =
     join [CHR 0x0A] [''{'', ''  "a": {'', ''    "b": 1'', ''  }'', ''}'']\<close>

definition prices :: json where
  "prices = JArray [JObject [(''price'', JNumber 150)], JObject [(''price'', JNumber 50)]]"

text \<open>
  A path in the bracket notation of the evaluator is \<^verbatim>\<open>$\<close> followed by bracket groups:
  quoted ones, \<^verbatim>\<open>['body']\<close>, and bare ones, \<^verbatim>\<open>[body]\<close>. The segment a group stands
  for is an index when its body is a number and the property named by the body
  otherwise. In the application's notation an index is written in brackets and a
  property after a dot. A group is addressable when its body can be read back from both
  notations: a quoted body is not empty and holds no quote, dot or bracket, a bare body
  is a number.
\<close>

datatype Bracket = Quoted string | Bare string

fun bracketText :: "Bracket \<Rightarrow> string" where
  "bracketText (Quoted b) = [CHR ''['', CHR 0x27] @ b @ [CHR 0x27, CHR '']'']"
| "bracketText (Bare b) = ''['' @ b @ '']''"

fun segmentOf :: "Bracket \<Rightarrow> PathSegment" where
  "segmentOf (Quoted b) = (if isDecimalDigits b then IndexSegment b else PropertySegment b)"
| "segmentOf (Bare b) = IndexSegment b"

fun appText :: "Bracket \<Rightarrow> string" where
  "appText (Quoted b) = (if isDecimalDigits b then ''['' @ b @ '']'' else ''.'' @ b)"
| "appText (Bare b) = ''['' @ b @ '']''"

fun addressable :: "Bracket \<Rightarrow> bool" where
  "addressable (Quoted b) = (b \<noteq> [] \<and> list_all notQuote b \<and> list_all isPlain b)"
| "addressable (Bare b) = isDecimalDigits b"

text \<open>A text at whose start a run of plain characters ends.\<close>

definition boundary :: "string \<Rightarrow> bool" where
  "boundary rest = (case rest of [] \<Rightarrow> True | c # cs \<Rightarrow> \<not> isPlain c)"

definition store_book_title :: "Bracket list" where
  "store_book_title = [Quoted ''store'', Quoted ''book'', Bare ''0'', Quoted ''title'']"


text \<open>
  The default value of every property of a schema, and the entries of the parsed document
  \<^verbatim>\<open>{"__proto__": 1, "a": "x"}\<close>: \<^verbatim>\<open>JSON.parse\<close> creates \<^verbatim>\<open>__proto__\<close> as an own
  property like any other key.
\<close>

definition defaults :: "PropertySchema list \<Rightarrow> (string \<times> json) list" where
  "defaults ps = map (\<lambda>p. (name p, getDefaultValue (type p))) ps"

definition proto_document :: "(string \<times> json) list" where
  "proto_document = [(''__proto__'', JNumber 1), (''a'', JString ''x'')]"

section \<open>Properties of parseJson\<close>

text \<open>
  C10. \<^verbatim>\<open>parseJson\<close> is total: whatever \<^verbatim>\<open>JSON.parse\<close> does on the input, the call
  returns a result record, which is either a success carrying the parsed value and no
  error, or a failure carrying a message and no data. The message is the one of the
  parser's error when the parser threw an \<^verbatim>\<open>Error\<close>.
\<close>

theorem parseJson_total:
  "(\<exists>v. JSON_parse s = Inr v \<and>
        parseJson JSON_parse s = \<lparr>ParseResult.success = True, data = Some v, error = None\<rparr>) \<or>
   (\<exists>e m. JSON_parse s = Inl e \<and>
        parseJson JSON_parse s = \<lparr>ParseResult.success = False, data = None, error = Some m\<rparr> \<and>
        m = (case e of Error msg \<Rightarrow> msg | NonError \<Rightarrow> ''Invalid JSON''))"
  by (cases "JSON_parse s") (simp_all add: parseJson_def)

section \<open>Properties of the version history\<close>

lemma lastn_lastn_append: "lastn n (lastn n a @ b) = lastn n (a @ b)"
  by (cases "length a \<le> n") (auto simp: lastn_def add.commute)

lemma handleDocumentUpdate_at_end:
  assumes "currentVersionIndex st = int (length (versionHistory st)) - 1"
  shows "versionHistory (handleDocumentUpdate f now d st) =
           lastn MAX_HISTORY_LENGTH
             (versionHistory st @ [\<lparr>content = f d, timestamp = now, label = ''Edit''\<rparr>])"
    and "currentVersionIndex (handleDocumentUpdate f now d st) =
           int (length (versionHistory (handleDocumentUpdate f now d st))) - 1"
  using assms by (auto simp: handleDocumentUpdate_def Let_def lastn_def)

lemma snapshot_pair:
  "snapshot f (now, d) = \<lparr>content = f d, timestamp = now, label = ''Edit''\<rparr>"
  by (simp add: snapshot_def)

lemma appendAll_at_end:
  "currentVersionIndex st = int (length (versionHistory st)) - 1 \<Longrightarrow>
   length (versionHistory st) \<le> MAX_HISTORY_LENGTH \<Longrightarrow>
   versionHistory (appendAll f edits st) =
     lastn MAX_HISTORY_LENGTH (versionHistory st @ map (snapshot f) edits) \<and>
   currentVersionIndex (appendAll f edits st) =
     int (length (versionHistory (appendAll f edits st))) - 1"
proof (induction edits rule: rev_induct)
  case Nil
  then show ?case by (simp add: appendAll_def lastn_def)
next
  case (snoc e edits)
  obtain now d where e: "e = (now, d)" by (cases e)
  let ?s = "appendAll f edits st"
  have step: "appendAll f (edits @ [e]) st = handleDocumentUpdate f now d ?s"
    by (simp add: appendAll_def e)
  from snoc have ih: "versionHistory ?s =
      lastn MAX_HISTORY_LENGTH (versionHistory st @ map (snapshot f) edits)"
    and at_end: "currentVersionIndex ?s = int (length (versionHistory ?s)) - 1"
    by simp_all
  show ?case
    unfolding step
    using handleDocumentUpdate_at_end[OF at_end, of f now d]
    by (simp add: ih lastn_lastn_append snapshot_pair e)
qed

text \<open>
  C5. From an empty history (cursor \<open>-1\<close>), sixty edits in sequence leave exactly fifty
  entries: the snapshots of the last fifty edits, in order, the first ten being evicted.
  The cursor is the last index, 49.
\<close>

theorem history_bound:
  assumes "versionHistory st = []" and "currentVersionIndex st = - 1" and "length edits = 60"
  shows "versionHistory (appendAll stringify edits st) = map (snapshot stringify) (drop 10 edits) \<and>
         length (versionHistory (appendAll stringify edits st)) = 50 \<and>
         currentVersionIndex (appendAll stringify edits st) = 49"
proof -
  have "currentVersionIndex st = int (length (versionHistory st)) - 1"
    and "length (versionHistory st) \<le> MAX_HISTORY_LENGTH"
    using assms by simp_all
  from appendAll_at_end[OF this, of stringify edits] assms
  show ?thesis by (simp add: lastn_def MAX_HISTORY_LENGTH_def drop_map)
qed

theorem history_bound_witness:
  "versionHistory App_initial = [] \<and> currentVersionIndex App_initial = - 1 \<and>
   length sixty_edits = 60 \<and>
   length (versionHistory (appendAll (\<lambda>d. []) sixty_edits App_initial)) = 50 \<and>
   currentVersionIndex (appendAll (\<lambda>d. []) sixty_edits App_initial) = 49"
proof -
  have a: "versionHistory App_initial = []" and b: "currentVersionIndex App_initial = - 1"
    by (simp_all add: App_initial_def)
  have c: "length sixty_edits = 60" by (simp add: sixty_edits_def)
  from history_bound[OF a b c, of "\<lambda>d. []"] a b c show ?thesis by simp
qed

lemma showVersion_parsed:
  assumes "0 \<le> i" and "i < int (length (versionHistory st))"
      and "JSON_parse (content (versionHistory st ! nat i)) = Inr d"
  shows "showVersion JSON_parse i st =
           Inr (st\<lparr>document := \<lparr>raw = content (versionHistory st ! nat i), parsed = Some d,
                                  isValid = True, error = None\<rparr>,
                   currentVersionIndex := i\<rparr>)"
  using assms by (simp add: showVersion_def item_at_def parseJson_def)

lemma entry_parses:
  assumes "list_all (parses JSON_parse) vs" and "i < length vs"
  obtains d where "JSON_parse (content (vs ! i)) = Inr d"
proof -
  from assms have "parses JSON_parse (vs ! i)" by (simp add: list_all_length)
  then show thesis
    by (cases "JSON_parse (content (vs ! i))") (auto simp: parses_def intro: that)
qed

text \<open>
  The states the handlers run in are the well-formed ones: loading a file that parses
  gives one, and an edit whose serialization parses, an undo and a redo keep it.
\<close>

lemma wellFormed_after_load:
  assumes "JSON_parse fileContent = Inr d"
  shows "wellFormedHistory JSON_parse (handleFileLoad JSON_parse now fileContent st)"
  using assms by (simp add: handleFileLoad_def parseJson_def wellFormedHistory_def parses_def)

lemma wellFormed_after_update:
  assumes "wellFormedHistory JSON_parse st" and "JSON_parse (stringify newData) = Inr d"
  shows "wellFormedHistory JSON_parse (handleDocumentUpdate stringify now newData st)"
proof -
  let ?v = "\<lparr>content = stringify newData, timestamp = now, label = ''Edit''\<rparr>"
  let ?h = "take (nat (currentVersionIndex st + 1)) (versionHistory st) @ [?v]"
  from assms(1) have "list_all (parses JSON_parse) (versionHistory st)"
    by (simp add: wellFormedHistory_def)
  then have t: "list_all (parses JSON_parse) (take (nat (currentVersionIndex st + 1)) (versionHistory st))"
    by (auto simp: list_all_iff dest: in_set_takeD)
  have v: "parses JSON_parse ?v" using assms(2) by (simp add: parses_def)
  from t v have all: "list_all (parses JSON_parse) ?h" by simp
  then have dropped: "list_all (parses JSON_parse) (drop k ?h)" for k
    by (auto simp: list_all_iff dest: in_set_dropD)
  from assms(1) have c: "0 \<le> currentVersionIndex st" by (simp add: wellFormedHistory_def)
  show ?thesis
  proof (cases "length ?h > MAX_HISTORY_LENGTH")
    case True
    with c dropped[of "length ?h - MAX_HISTORY_LENGTH"] show ?thesis
      by (simp add: wellFormedHistory_def handleDocumentUpdate_def Let_def MAX_HISTORY_LENGTH_def)
  next
    case False
    with c all show ?thesis
      by (simp add: wellFormedHistory_def handleDocumentUpdate_def Let_def)
  qed
qed

text \<open>
  C6. In every state of the version history the handlers run in, undo changes nothing
  when the cursor is 0 and otherwise moves the cursor one entry back; redo changes
  nothing when the cursor is the last index and otherwise moves it one entry forward. A
  move makes the snapshot at the new cursor the displayed document: its text, parsed.
\<close>

theorem undo_redo_cursor:
  assumes "wellFormedHistory JSON_parse st"
  shows "(currentVersionIndex st = 0 \<longrightarrow> handleUndo JSON_parse st = Inr st) \<and>
         (currentVersionIndex st \<noteq> 0 \<longrightarrow>
            (\<exists>d. JSON_parse (content (versionHistory st ! nat (currentVersionIndex st - 1))) = Inr d \<and>
                 handleUndo JSON_parse st =
                   Inr (st\<lparr>document :=
                             \<lparr>raw = content (versionHistory st ! nat (currentVersionIndex st - 1)),
                              parsed = Some d, isValid = True, error = None\<rparr>,
                           currentVersionIndex := currentVersionIndex st - 1\<rparr>))) \<and>
         (currentVersionIndex st = int (length (versionHistory st)) - 1 \<longrightarrow>
            handleRedo JSON_parse st = Inr st) \<and>
         (currentVersionIndex st \<noteq> int (length (versionHistory st)) - 1 \<longrightarrow>
            (\<exists>d. JSON_parse (content (versionHistory st ! nat (currentVersionIndex st + 1))) = Inr d \<and>
                 handleRedo JSON_parse st =
                   Inr (st\<lparr>document :=
                             \<lparr>raw = content (versionHistory st ! nat (currentVersionIndex st + 1)),
                              parsed = Some d, isValid = True, error = None\<rparr>,
                           currentVersionIndex := currentVersionIndex st + 1\<rparr>)))"
proof -
  from assms have lo: "0 \<le> currentVersionIndex st"
    and hi: "currentVersionIndex st < int (length (versionHistory st))"
    and all: "list_all (parses JSON_parse) (versionHistory st)"
    by (simp_all add: wellFormedHistory_def)
  show ?thesis
  proof (intro conjI impI)
    assume "currentVersionIndex st = 0"
    then show "handleUndo JSON_parse st = Inr st" by (simp add: handleUndo_def)
  next
    let ?i = "currentVersionIndex st - 1"
    assume "currentVersionIndex st \<noteq> 0"
    with lo hi have r: "0 \<le> ?i" "?i < int (length (versionHistory st))"
      and pos: "0 < currentVersionIndex st" by simp_all
    from r have "nat ?i < length (versionHistory st)" by simp
    from entry_parses[OF all this] obtain d
      where d: "JSON_parse (content (versionHistory st ! nat ?i)) = Inr d" .
    from showVersion_parsed[where JSON_parse = JSON_parse, OF r d] pos d
    show "\<exists>d. JSON_parse (content (versionHistory st ! nat ?i)) = Inr d \<and>
            handleUndo JSON_parse st =
              Inr (st\<lparr>document := \<lparr>raw = content (versionHistory st ! nat ?i),
                                     parsed = Some d, isValid = True, error = None\<rparr>,
                      currentVersionIndex := ?i\<rparr>)"
      by (simp add: handleUndo_def)
  next
    assume "currentVersionIndex st = int (length (versionHistory st)) - 1"
    then show "handleRedo JSON_parse st = Inr st" by (simp add: handleRedo_def)
  next
    let ?i = "currentVersionIndex st + 1"
    assume "currentVersionIndex st \<noteq> int (length (versionHistory st)) - 1"
    with lo hi have r: "0 \<le> ?i" "?i < int (length (versionHistory st))"
      and below: "currentVersionIndex st < int (length (versionHistory st)) - 1" by simp_all
    from r have "nat ?i < length (versionHistory st)" by simp
    from entry_parses[OF all this] obtain d
      where d: "JSON_parse (content (versionHistory st ! nat ?i)) = Inr d" .
    from showVersion_parsed[where JSON_parse = JSON_parse, OF r d] below d
    show "\<exists>d. JSON_parse (content (versionHistory st ! nat ?i)) = Inr d \<and>
            handleRedo JSON_parse st =
              Inr (st\<lparr>document := \<lparr>raw = content (versionHistory st ! nat ?i),
                                     parsed = Some d, isValid = True, error = None\<rparr>,
                      currentVersionIndex := ?i\<rparr>)"
      by (simp add: handleRedo_def)
  qed
qed

text \<open>
  On a history of two versions, with a parser that accepts every text: undo at index 1
  shows version 0, undo at index 0 changes nothing, redo at index 0 shows version 1 and
  redo at index 1 changes nothing.
\<close>

theorem undo_redo_cursor_witness:
  "wellFormedHistory (Inr \<circ> JString) (two_versions 0) \<and>
   wellFormedHistory (Inr \<circ> JString) (two_versions 1) \<and>
   handleUndo (Inr \<circ> JString) (two_versions 1) =
     Inr ((two_versions 1)\<lparr>document := \<lparr>raw = ''0'', parsed = Some (JString ''0''),
                                        isValid = True, error = None\<rparr>,
                           currentVersionIndex := 0\<rparr>) \<and>
   handleUndo (Inr \<circ> JString) (two_versions 0) = Inr (two_versions 0) \<and>
   handleRedo (Inr \<circ> JString) (two_versions 0) =
     Inr ((two_versions 0)\<lparr>document := \<lparr>raw = ''1'', parsed = Some (JString ''1''),
                                        isValid = True, error = None\<rparr>,
                           currentVersionIndex := 1\<rparr>) \<and>
   handleRedo (Inr \<circ> JString) (two_versions 1) = Inr (two_versions 1)"
proof -
  have w0: "wellFormedHistory (Inr \<circ> JString) (two_versions 0)"
    and w1: "wellFormedHistory (Inr \<circ> JString) (two_versions 1)"
    by (simp_all add: wellFormedHistory_def two_versions_def parses_def)
  from undo_redo_cursor[OF w0] undo_redo_cursor[OF w1] w0 w1
  show ?thesis by (simp add: two_versions_def)
qed

section \<open>Properties of the highlight range\<close>

text \<open>
  C3. On the five-line text of \<^verbatim>\<open>{"a": {"b": 1}}\<close> the path \<^verbatim>\<open>a\<close> is mapped to lines
  2 to 4, from the line of \<^verbatim>\<open>"a": {\<close> to the line of its closing brace, and the path
  \<^verbatim>\<open>a.b\<close> is mapped to line 3 alone, the line of \<^verbatim>\<open>"b": 1\<close>.
\<close>

theorem nested_sample_ranges:
  \<open>splitStr (CHR 0x0A) nested_sample =
     [''{'', ''  "a": {'', ''    "b": 1'', ''  }'', ''}''] \<and>
   highlightRange nested_sample (Some ''a'') = Some (2, 4) \<and>
   highlightRange nested_sample (Some ''a.b'') = Some (3, 3)\<close>
  by code_simp

text \<open>
  C4 does not hold of the code. The path \<^verbatim>\<open>a.c\<close> names a property that the object under
  \<^verbatim>\<open>a\<close> does not have, so its segments never match completely; the scan still answers
  with lines 2 to 4, the range of the parent \<^verbatim>\<open>a\<close>. The branch for a property whose
  value opens a block sets the start line without testing that the segment is the last
  one, which the two other branches that set it do test.
\<close>

theorem absent_property_highlights_parent:
  "pathSegments ''a.c'' = [PropertySegment ''a'', PropertySegment ''c''] \<and>
   currentSegmentIndex (scanLines (pathSegments ''a.c'') 0 (splitStr (CHR 0x0A) nested_sample)
                          Scan_initial) = 1 \<and>
   highlightRange nested_sample (Some ''a.c'') = Some (2, 4)"
  by code_simp

lemma toSegment_index:
  "list_all isDigit ds \<Longrightarrow> toSegment (CHR ''['' # ds @ '']'') = IndexSegment ds"
proof -
  assume d: "list_all isDigit ds"
  have "filter (\<lambda>c. c \<noteq> CHR ''['' \<and> c \<noteq> CHR '']'') ds = ds"
    using d by (induction ds) (auto simp: isDigit_def)
  then show ?thesis by (simp add: toSegment_def startsWith_def)
qed

lemma toSegment_property:
  "isPlain c \<Longrightarrow> toSegment (c # cs) = PropertySegment (c # cs)"
  by (auto simp: toSegment_def startsWith_def isPlain_def)






lemma not_plain_separators:
  "\<not> isPlain (CHR ''['')" "\<not> isPlain (CHR '']'')" "\<not> isPlain (CHR ''.'')"
  by (simp_all add: isPlain_def)





section \<open>Properties of the query builder\<close>

text \<open>
  C1. The single condition \<^verbatim>\<open>price > 100\<close> under the AND combinator compiles to exactly
  \<^verbatim>\<open>$[?(@.price > 100)]\<close>. Executing the visual query on the array of the two objects
  with prices 150 and 50 succeeds with exactly one match: its value is the first element
  and its address, converted from the evaluator's \<^verbatim>\<open>$[0]\<close>, is \<^verbatim>\<open>[0]\<close>. The condition's
  identifier and the content of the text field play no role.
\<close>

theorem price_query_compiles_and_matches:
  "generateJSONPathFromConditions
     [\<lparr>cid = i, property = ''price'', operator = ''>'', cvalue = ''100''\<rparr>] AND
     = ''$[?(@.price > 100)]'' \<and>
   executeVisualQuery filterEvaluator prices query
     [\<lparr>cid = i, property = ''price'', operator = ''>'', cvalue = ''100''\<rparr>] AND
     = \<lparr>success = True, data = Some [JObject [(''price'', JNumber 150)]], error = None,
        count = Some 1, paths = None,
        items = Some [(JObject [(''price'', JNumber 150)], ''[0]'')]\<rparr>"
  by code_simp

text \<open>
  What \<^verbatim>\<open>isNaN(Number(value))\<close> answers on some literals: the empty and the blank string
  convert to 0, and exponents, hexadecimal digits and \<^verbatim>\<open>Infinity\<close> are numbers too.
\<close>

lemma Number_isNaN_examples:
  "map Number_isNaN [''100'', ''-1.5'', ''1e5'', ''0x1F'', ''Infinity'', [], '' '']
     = [False, False, False, False, False, False, False]"
  "map Number_isNaN [''abc'', ''12px'', ''1,5'', ''true'', ''null'', ''.'', ''-0x1F'']
     = [True, True, True, True, True, True, True]"
  by code_simp+

text \<open>
  C2 does not hold of the code. A comparison with an empty or a blank value is emitted
  bare, not between double quotes: \<^verbatim>\<open>Number('')\<close> is 0, so the test for a numeric value
  lets the empty string through, and the compiled expression \<^verbatim>\<open>$[?(@.name == )]\<close> lacks
  its right-hand side. A word in the same place is quoted. The empty string is the value
  a new condition starts with.
\<close>

theorem empty_literal_emitted_bare:
  \<open>filterExpression \<lparr>cid = i, property = ''name'', operator = ''=='', cvalue = []\<rparr>
     = ''@.name == '' \<and>
   generateJSONPathFromConditions
     [\<lparr>cid = i, property = ''name'', operator = ''=='', cvalue = []\<rparr>] AND
     = ''$[?(@.name == )]'' \<and>
   filterExpression \<lparr>cid = i, property = ''name'', operator = ''=='', cvalue = ''  ''\<rparr>
     = ''@.name ==   '' \<and>
   filterExpression \<lparr>cid = i, property = ''name'', operator = ''=='', cvalue = ''Ann''\<rparr>
     = ''@.name == "Ann"''\<close>
  by code_simp

section \<open>Properties of the path conversion\<close>

lemma replace_quoted:
  assumes "b \<noteq> []" and "list_all notQuote b"
  shows "replaceQuotedBrackets (bracketText (Quoted b) @ rest) =
           appText (Quoted b) @ replaceQuotedBrackets rest"
proof -
  have tw: "takeWhile notQuote (b @ CHR 0x27 # CHR '']'' # rest) = b"
    and dw: "dropWhile notQuote (b @ CHR 0x27 # CHR '']'' # rest) = CHR 0x27 # CHR '']'' # rest"
    using assms(2) by (simp_all add: list_all_iff notQuote_def)
  have m: "matchesQuotedBracket (CHR ''['' # CHR 0x27 # b @ CHR 0x27 # CHR '']'' # rest)"
    using assms(1) by (simp add: matchesQuotedBracket_def startsWith_def tw dw)
  show ?thesis
    using m by (simp add: tw dw replacement_def)
qed

lemma replace_digits:
  "list_all isDigit b \<Longrightarrow> replaceQuotedBrackets (b @ rest) = b @ replaceQuotedBrackets rest"
proof (induction b)
  case Nil
  then show ?case by simp
next
  case (Cons d b)
  then have "d \<noteq> CHR ''[''" by (auto simp: isDigit_def)
  then have "\<not> matchesQuotedBracket (d # b @ rest)"
    by (simp add: matchesQuotedBracket_def startsWith_def)
  with Cons show ?case by simp
qed

lemma replace_bare:
  assumes "isDecimalDigits b"
  shows "replaceQuotedBrackets (bracketText (Bare b) @ rest) =
           appText (Bare b) @ replaceQuotedBrackets rest"
proof -
  from assms obtain d ds where b: "b = d # ds" and d: "isDigit d" and ds: "list_all isDigit b"
    by (cases b) (auto simp: isDecimalDigits_def)
  from d have "d \<noteq> CHR 0x27" by (auto simp: isDigit_def)
  then have open_: "\<not> matchesQuotedBracket (CHR ''['' # b @ CHR '']'' # rest)"
    by (simp add: matchesQuotedBracket_def startsWith_def b)
  have close_: "\<not> matchesQuotedBracket (CHR '']'' # rest)"
    by (simp add: matchesQuotedBracket_def startsWith_def)
  have "replaceQuotedBrackets (CHR ''['' # b @ CHR '']'' # rest) =
          CHR ''['' # replaceQuotedBrackets (b @ CHR '']'' # rest)"
    using open_ by simp
  also have "\<dots> = CHR ''['' # b @ replaceQuotedBrackets (CHR '']'' # rest)"
    by (simp add: replace_digits[OF ds])
  also have "\<dots> = CHR ''['' # b @ CHR '']'' # replaceQuotedBrackets rest"
    using close_ by simp
  finally show ?thesis by simp
qed

lemma replace_brackets:
  "list_all addressable bs \<Longrightarrow>
   replaceQuotedBrackets (concat (map bracketText bs)) = concat (map appText bs)"
proof (induction bs)
  case Nil
  then show ?case by simp
next
  case (Cons x bs)
  then have ih: "replaceQuotedBrackets (concat (map bracketText bs)) = concat (map appText bs)"
    by simp
  show ?case
  proof (cases x)
    case (Quoted b)
    with Cons.prems have "b \<noteq> []" "list_all notQuote b" by simp_all
    from replace_quoted[OF this, of "concat (map bracketText bs)"] ih Quoted
    show ?thesis by simp
  next
    case (Bare b)
    with Cons.prems have "isDecimalDigits b" by simp
    from replace_bare[OF this, of "concat (map bracketText bs)"] ih Bare
    show ?thesis by simp
  qed
qed

lemma appText_boundary:
  "list_all addressable bs \<Longrightarrow> boundary (concat (map appText bs))"
proof (cases bs)
  case Nil then show ?thesis by (simp add: boundary_def)
next
  case (Cons x xs)
  then show ?thesis by (cases x) (auto simp: boundary_def not_plain_separators)
qed

lemma appText_keeps_dot:
  assumes "list_all addressable bs"
  shows "\<not> startsWith (concat (map appText bs)) ''.[''"
proof (cases bs)
  case Nil then show ?thesis by (simp add: startsWith_def)
next
  case (Cons x xs)
  show ?thesis
  proof (cases x)
    case (Quoted b)
    with assms Cons obtain c cs where "b = c # cs" "isPlain c" by (cases b) auto
    with Quoted Cons show ?thesis by (auto simp: startsWith_def not_plain_separators)
  next
    case (Bare b)
    with Cons show ?thesis by (simp add: startsWith_def)
  qed
qed

lemma match_index:
  assumes "isDecimalDigits b"
  shows "matchSegments (''['' @ b @ '']'' @ rest) = (''['' @ b @ '']'') # matchSegments rest"
proof -
  from assms have ne: "b \<noteq> []" and d: "list_all isDigit b"
    by (simp_all add: isDecimalDigits_def)
  have nd: "\<not> isDigit (CHR '']'')" by (simp add: isDigit_def)
  have tw: "takeWhile isDigit (b @ CHR '']'' # rest) = b"
    and dw: "dropWhile isDigit (b @ CHR '']'' # rest) = CHR '']'' # rest"
    using d nd by (simp_all add: list_all_iff)
  show ?thesis using ne by (simp add: tw dw startsWith_def)
qed

lemma match_property:
  assumes "b \<noteq> []" and "list_all isPlain b" and "boundary rest"
  shows "matchSegments (''.'' @ b @ rest) = b # matchSegments rest"
proof -
  from assms obtain c cs where b: "b = c # cs" and c: "isPlain c" and cs: "list_all isPlain cs"
    by (cases b) auto
  from c have nb: "c \<noteq> CHR ''[''" by (auto simp: not_plain_separators)
  have tw: "takeWhile isPlain (cs @ rest) = cs" and dw: "dropWhile isPlain (cs @ rest) = rest"
    using cs assms(3) by (cases rest; simp add: list_all_iff boundary_def)+
  show ?thesis using c nb by (simp add: b tw dw not_plain_separators)
qed

lemma pathSegments_appText:
  "list_all addressable bs \<Longrightarrow> pathSegments (concat (map appText bs)) = map segmentOf bs"
proof (induction bs)
  case Nil
  then show ?case by (simp add: pathSegments_def)
next
  case (Cons x bs)
  then have ih: "map toSegment (matchSegments (concat (map appText bs))) = map segmentOf bs"
    and bd: "boundary (concat (map appText bs))"
    by (simp_all add: pathSegments_def appText_boundary)
  show ?case
  proof (cases x)
    case (Quoted b)
    with Cons.prems have ne: "b \<noteq> []" and pl: "list_all isPlain b" by simp_all
    show ?thesis
    proof (cases "isDecimalDigits b")
      case True
      then have "list_all isDigit b" by (simp add: isDecimalDigits_def)
      with match_index[OF True, of "concat (map appText bs)"] ih Quoted True
      show ?thesis by (simp add: pathSegments_def toSegment_index)
    next
      case False
      from ne pl obtain c cs where b: "b = c # cs" and c: "isPlain c" by (cases b) auto
      from match_property[OF ne pl bd] ih Quoted False c
      show ?thesis by (simp add: pathSegments_def b toSegment_property)
    qed
  next
    case (Bare b)
    with Cons.prems have dd: "isDecimalDigits b" by simp
    then have "list_all isDigit b" by (simp add: isDecimalDigits_def)
    with match_index[OF dd, of "concat (map appText bs)"] ih Bare
    show ?thesis by (simp add: pathSegments_def toSegment_index)
  qed
qed

text \<open>
  C7, as the code has it. For a path made of \<^verbatim>\<open>$\<close> and bracket groups whose quoted bodies
  are not empty and hold no quote, dot or bracket, and whose bare bodies are numbers, the
  converted path reads, segment by segment, as the groups do: a quoted body that is
  entirely numeric is an Index segment, every other quoted body is the Property segment
  of that name, and a bare number is an Index segment.
\<close>

theorem foreign_path_segments:
  assumes "list_all addressable bs"
  shows "pathSegments (convertJsonPathToAppPath (''$'' @ concat (map bracketText bs))) =
           map segmentOf bs"
proof -
  have "convertJsonPathToAppPath (''$'' @ concat (map bracketText bs)) = concat (map appText bs)"
    using replace_brackets[OF assms] appText_keeps_dot[OF assms]
    by (simp add: convertJsonPathToAppPath_def startsWith_def)
  then show ?thesis by (simp add: pathSegments_appText[OF assms])
qed

text \<open>
  The example of the claim: \<^verbatim>\<open>$['store']['book'][0]['title']\<close> converts to
  \<^verbatim>\<open>.store.book[0].title\<close>, which reads as the properties \<^verbatim>\<open>store\<close> and \<^verbatim>\<open>book\<close>, the
  index 0 and the property \<^verbatim>\<open>title\<close>.
\<close>

theorem foreign_path_segments_witness:
  "list_all addressable store_book_title \<and>
   ''$'' @ concat (map bracketText store_book_title) = ''$['store']['book'][0]['title']'' \<and>
   convertJsonPathToAppPath ''$['store']['book'][0]['title']'' = ''.store.book[0].title'' \<and>
   pathSegments (convertJsonPathToAppPath ''$['store']['book'][0]['title']'') =
     [PropertySegment ''store'', PropertySegment ''book'', IndexSegment ''0'',
      PropertySegment ''title'']"
proof -
  have d: "list_all addressable store_book_title"
    by (simp add: store_book_title_def notQuote_def isPlain_def isDecimalDigits_def isDigit_def)
  have t: "''$'' @ concat (map bracketText store_book_title) = ''$['store']['book'][0]['title']''"
    by (simp add: store_book_title_def)
  have s: "map segmentOf store_book_title =
             [PropertySegment ''store'', PropertySegment ''book'', IndexSegment ''0'',
              PropertySegment ''title'']"
    by (simp add: store_book_title_def isDecimalDigits_def isDigit_def)
  have c: "convertJsonPathToAppPath ''$['store']['book'][0]['title']'' = ''.store.book[0].title''"
    by code_simp
  from foreign_path_segments[OF d] have
    "pathSegments (convertJsonPathToAppPath ''$['store']['book'][0]['title']'') =
       [PropertySegment ''store'', PropertySegment ''book'', IndexSegment ''0'',
        PropertySegment ''title'']"
    unfolding t s .
  with d t c show ?thesis by (intro conjI)
qed

text \<open>
  The claim as stated fails on three kinds of keys, each addressed by the evaluator with
  a quoted group. The group of the empty key is left as it is and reads as a property
  named by two quote characters. The group of a key holding a quote, \<^verbatim>\<open>it's\<close>, is left
  as it is too. The group of a key holding a dot, \<^verbatim>\<open>a.b\<close>, is converted to \<^verbatim>\<open>.a.b\<close>,
  which reads as two Property segments, not as the one property \<^verbatim>\<open>a.b\<close>; likewise
  the key \<^verbatim>\<open>a[0]\<close> reads as a property and an index.
\<close>

theorem quoted_body_counterexample:
  "children (JObject [([], JNull)]) = [(JNull, ''$'' @ bracketText (Quoted []))] \<and>
   convertJsonPathToAppPath (''$'' @ bracketText (Quoted [])) = bracketText (Quoted []) \<and>
   pathSegments (convertJsonPathToAppPath (''$'' @ bracketText (Quoted []))) =
     [PropertySegment [CHR 0x27, CHR 0x27]] \<and>
   convertJsonPathToAppPath (''$'' @ bracketText (Quoted ''it's'')) =
     bracketText (Quoted ''it's'') \<and>
   pathSegments (convertJsonPathToAppPath (''$'' @ bracketText (Quoted ''a.b''))) =
     [PropertySegment ''a'', PropertySegment ''b''] \<and>
   segmentOf (Quoted ''a.b'') = PropertySegment ''a.b'' \<and>
   pathSegments (convertJsonPathToAppPath (''$'' @ bracketText (Quoted ''a[0]''))) =
     [PropertySegment ''a'', IndexSegment ''0'']"
  by code_simp

section \<open>Properties of schema inference and default values\<close>

lemma inferType_getDefaultValue: "inferType (getDefaultValue t) = t"
  by (cases t) simp_all

lemma inferProperty_name_type:
  "type (inferProperty k v) = inferType v" "name (inferProperty k v) = k"
  by (induction k v rule: inferProperty_inferProperties.induct(1)) simp_all

lemma typeTags_inferObjectSchema:
  "typeTags (inferObjectSchema obj) = map (\<lambda>e. (fst e, inferType (snd e))) obj"
  by (induction obj) (auto simp: typeTags_def inferObjectSchema_def inferProperty_name_type)

text \<open>Assigning to a key the object does not have yet adds exactly that entry.\<close>

lemma assign_new_key:
  assumes "k \<notin> set (map fst es)" and "k \<noteq> ''__proto__''"
  shows "fst (assign k v (b, es)) = b"
    and "set (snd (assign k v (b, es))) = insert (k, v) (set es)"
    and "length (snd (assign k v (b, es))) = Suc (length es)"
proof -
  have parts: "set (takeWhile P es) \<union> set (dropWhile P es) = set es" for P
    by (metis set_append takeWhile_dropWhile_id)
  have lens: "length (takeWhile P es) + length (dropWhile P es) = length es" for P
    by (metis length_append takeWhile_dropWhile_id)
  show "fst (assign k v (b, es)) = b"
    using assms by (simp add: assign_def Let_def)
  show "set (snd (assign k v (b, es))) = insert (k, v) (set es)"
    using assms parts[of "precedes k"] by (auto simp: assign_def Let_def)
  show "length (snd (assign k v (b, es))) = Suc (length es)"
    using assms lens[of "precedes k"] by (simp add: assign_def Let_def)
qed

lemma fold_assign_new_keys:
  assumes "distinct (map name ps)" and "''__proto__'' \<notin> set (map name ps)"
      and "set (map name ps) \<inter> set (map fst es) = {}"
  shows "fst (foldl (\<lambda>obj prop. assign (name prop) (getDefaultValue (type prop)) obj) (b, es) ps) = b \<and>
         set (snd (foldl (\<lambda>obj prop. assign (name prop) (getDefaultValue (type prop)) obj) (b, es) ps))
           = set es \<union> set (defaults ps) \<and>
         length (snd (foldl (\<lambda>obj prop. assign (name prop) (getDefaultValue (type prop)) obj) (b, es) ps))
           = length es + length ps"
  using assms
proof (induction ps arbitrary: es)
  case Nil
  then show ?case by (simp add: defaults_def)
next
  case (Cons p ps)
  let ?k = "name p" and ?v = "getDefaultValue (type p)"
  obtain es' where step: "assign ?k ?v (b, es) = (b, es')"
    and set': "set es' = insert (?k, ?v) (set es)"
    and len': "length es' = Suc (length es)"
    using assign_new_key[of ?k es ?v b] Cons.prems
    by (cases "assign ?k ?v (b, es)") auto
  have "set (map name ps) \<inter> set (map fst es') = {}"
    using Cons.prems set' by (auto simp: image_iff)
  with Cons.IH[of es'] Cons.prems
  show ?case by (simp add: step set' len' defaults_def)
qed

text \<open>
  Apart from one key the round trip holds. For a schema whose property names are
  pairwise distinct, none of them \<^verbatim>\<open>__proto__\<close>, the schema inferred from the skeleton
  of default values has the same pairs of name and type tag, and as many; and a schema
  inferred from an object names each of its keys once.
\<close>

lemma skeleton_keeps_type_tags:
  assumes "distinct (map name (properties schema))"
      and "''__proto__'' \<notin> set (map name (properties schema))"
  shows "set (typeTags (inferObjectSchema (createDefaultObject schema))) = set (typeTags schema) \<and>
         length (typeTags (inferObjectSchema (createDefaultObject schema))) =
           length (typeTags schema)"
proof -
  let ?ps = "properties schema"
  from fold_assign_new_keys[OF assms, of "[]" True]
  have s: "set (createDefaultObject schema) = set (defaults ?ps)"
    and l: "length (createDefaultObject schema) = length ?ps"
    by (simp_all add: createDefaultObject_def)
  have "set (typeTags (inferObjectSchema (createDefaultObject schema)))
          = (\<lambda>e. (fst e, inferType (snd e))) ` set (defaults ?ps)"
    by (simp add: typeTags_inferObjectSchema s)
  also have "\<dots> = set (typeTags schema)"
    by (auto simp: defaults_def typeTags_def inferType_getDefaultValue image_iff)
  finally show ?thesis
    by (simp add: typeTags_inferObjectSchema l) (simp add: typeTags_def)
qed

lemma inferred_names:
  "map name (properties (inferObjectSchema obj)) = map fst obj"
  by (induction obj) (auto simp: inferObjectSchema_def inferProperty_name_type)

text \<open>
  C9 does not hold of the code. The schema inferred from the parsed document
  \<^verbatim>\<open>{"__proto__": 1, "a": "x"}\<close> has the properties \<^verbatim>\<open>__proto__\<close>, a number, and \<^verbatim>\<open>a\<close>,
  a string. The assignment \<^verbatim>\<open>obj[prop.name] = ...\<close> that builds the skeleton runs, for
  the name \<^verbatim>\<open>__proto__\<close>, the setter inherited from \<^verbatim>\<open>Object.prototype\<close> and creates no
  property, so the skeleton has the property \<^verbatim>\<open>a\<close> alone and the schema inferred from it
  has lost the type tag of \<^verbatim>\<open>__proto__\<close>.
\<close>

theorem proto_key_loses_type_tag:
  "typeTags (inferObjectSchema proto_document) = [(''__proto__'', TNumber), (''a'', TString)] \<and>
   createDefaultObject (inferObjectSchema proto_document) = [(''a'', JString [])] \<and>
   typeTags (inferObjectSchema (createDefaultObject (inferObjectSchema proto_document))) =
     [(''a'', TString)]"
  by code_simp

end
